theory Spec2Isabelle
  imports Main "HOL-Library.Word"
begin

section \<open>Pithon operator console: actuator table, command link and telemetry reader\<close>

text \<open>
  The development embeds \<^verbatim>\<open>src/main.py\<close>: the classes \<^verbatim>\<open>Rpi\<close>, \<^verbatim>\<open>Stream\<close>,
  \<^verbatim>\<open>Server\<close> and \<^verbatim>\<open>Model\<close>. Python exceptions are values of \<open>exn\<close>; a function
  that may raise returns \<open>exn + 'a\<close>. The module-level objects \<^verbatim>\<open>model\<close>, \<^verbatim>\<open>rpi\<close>,
  \<^verbatim>\<open>server\<close>, \<^verbatim>\<open>control_panel\<close> and \<^verbatim>\<open>simulator\<close> are the fields of one record
  \<open>world\<close> that every operation takes and returns.

  The Qt widgets, the socket and the logging module are libraries outside the source. A call
  on one of them is recorded in the order it is made: \<^verbatim>\<open>conn.send\<close> appends to \<open>wire\<close>,
  a \<^verbatim>\<open>logging\<close> call appends to \<open>logged\<close>, \<^verbatim>\<open>sliders[s].setValue(v)\<close> appends
  \<open>(s, v)\<close> to \<open>widget\<close>. What a widget or the clock returns (\<^verbatim>\<open>slider.value()\<close>,
  \<^verbatim>\<open>slider.objectName()\<close>, \<^verbatim>\<open>time()\<close>) is an argument of the operation that reads it.
  A recorded call is not interpreted further: what the widget toolkit does on
  \<^verbatim>\<open>setValue\<close> beyond taking the value (such as notifying a connected handler) is not
  part of this development.
\<close>

subsection \<open>Exceptions and integers as text\<close>

datatype exn = KeyError | IndexError | TypeError | StructError | ValueError | StopIteration




subsection \<open>The actuator table \<^verbatim>\<open>Model.GPIO\<close>\<close>

text \<open>
  Each value of the dict is the four-element list
  \<^verbatim>\<open>[description, value, safe-value, (lower-bound, upper-bound)]\<close>; index 1 is the only
  one the program assigns. The dict is kept as an association list in the order of the
  source, which is the order \<^verbatim>\<open>GPIO.keys()\<close> iterates in.
\<close>

record entry =
  descr :: string
  val :: int
  safe :: int
  bounds :: "int \<times> int"

type_synonym gpio = "(string \<times> entry) list"

definition GPIO_init :: gpio where
  "GPIO_init =
    [(''SN1V'', \<lparr>descr = ''Servo|Neck1|Vertical'', val = 10, safe = 10, bounds = (-40, 60)\<rparr>),
     (''SN1H'', \<lparr>descr = ''Servo|Neck1|Horizontal'', val = 0, safe = 0, bounds = (-65, 65)\<rparr>),
     (''SN2V'', \<lparr>descr = ''Servo|Neck2|Vertical'', val = 10, safe = 10, bounds = (-40, 60)\<rparr>),
     (''SN2H'', \<lparr>descr = ''Servo|Neck2|Horizontal'', val = 0, safe = 0, bounds = (-65, 65)\<rparr>),
     (''MS1F'', \<lparr>descr = ''Motor|Segment1|Forwards'', val = 0, safe = 0, bounds = (-80, 95)\<rparr>),
     (''MS1S'', \<lparr>descr = ''Motor|Segment1|Sideways'', val = 0, safe = 0, bounds = (-90, 90)\<rparr>),
     (''SJ1V'', \<lparr>descr = ''Servo|Joint1|Vertical'', val = 0, safe = 0, bounds = (-80, 80)\<rparr>),
     (''SJ1H'', \<lparr>descr = ''Servo|Joint1|Horizontal'', val = 0, safe = 0, bounds = (-80, 80)\<rparr>),
     (''MS2F'', \<lparr>descr = ''Motor|Segment2|Forwards'', val = 0, safe = 0, bounds = (-80, 95)\<rparr>),
     (''MS2S'', \<lparr>descr = ''Motor|Segment2|Sideways'', val = 0, safe = 0, bounds = (-90, 90)\<rparr>),
     (''SJ2V'', \<lparr>descr = ''Servo|Joint2|Vertical'', val = 0, safe = 0, bounds = (-80, 80)\<rparr>),
     (''SJ2H'', \<lparr>descr = ''Servo|Joint2|Horizontal'', val = 0, safe = 0, bounds = (-80, 80)\<rparr>),
     (''MS3F'', \<lparr>descr = ''Motor|Segment3|Forwards'', val = 0, safe = 0, bounds = (-80, 95)\<rparr>),
     (''MS3S'', \<lparr>descr = ''Motor|Segment3|Sideways'', val = 0, safe = 0, bounds = (-90, 90)\<rparr>)]"

definition keys :: "gpio \<Rightarrow> string list" where
  "keys g = map fst g"

text \<open>\<^verbatim>\<open>GPIO[s][1] = v\<close> on a key that is present (the callers below check or raise first).\<close>

definition set_val :: "string \<Rightarrow> int \<Rightarrow> gpio \<Rightarrow> gpio" where
  "set_val s v g = map (\<lambda>(k, e). if k = s then (k, e\<lparr>val := v\<rparr>) else (k, e)) g"


text \<open>
  The parts of the table that no statement of the program assigns: keys in order, with
  description, safe value and bound pair.
\<close>

definition config :: "gpio \<Rightarrow> (string \<times> string \<times> int \<times> int \<times> int) list" where
  "config g = map (\<lambda>(k, e). (k, descr e, safe e, bounds e)) g"

text \<open>\<^verbatim>\<open>Model.bounds_check\<close>.\<close>

definition bounds_check :: "gpio \<Rightarrow> string \<Rightarrow> int \<Rightarrow> exn + int" where
  "bounds_check g s v =
     (case map_of g s of
        None \<Rightarrow> Inl KeyError
      | Some e \<Rightarrow>
          (case bounds e of (lower, upper) \<Rightarrow>
             if v < lower then Inr lower
             else if v > upper then Inr upper
             else Inr v))"


subsection \<open>The connection \<^verbatim>\<open>Rpi\<close>, the log and the widgets\<close>

datatype level = DEBUG | INFO | WARNING

text \<open>
  A binary file object over the connection (\<^verbatim>\<open>conn.makefile('rb')\<close>): whether it has been
  closed, and the bytes that will arrive before the end of the stream.
\<close>

record stream_file =
  closed :: bool
  buf :: "8 word list"

record world =
  GPIO :: gpio
  alive :: bool
  wire :: "string list"
  logged :: "(level \<times> string) list"
  widget :: "(string \<times> int) list"
  streamfile :: stream_file
  server_socket_closed :: bool

definition logging :: "level \<Rightarrow> string \<Rightarrow> world \<Rightarrow> world" where
  "logging l m w = w\<lparr>logged := logged w @ [(l, m)]\<rparr>"

text \<open>\<^verbatim>\<open>sliders[s].setValue(v)\<close>: the call is recorded.\<close>

definition setValue :: "string \<Rightarrow> int \<Rightarrow> world \<Rightarrow> world" where
  "setValue s v w = w\<lparr>widget := widget w @ [(s, v)]\<rparr>"

text \<open>\<^verbatim>\<open>Rpi.send\<close>: the bytes handed to \<^verbatim>\<open>conn.send\<close> are the message and a newline.\<close>

definition send :: "string \<Rightarrow> world \<Rightarrow> world" where
  "send msg w =
     (if alive w then
        (let w1 = logging DEBUG (''Send: '' @ msg) w
         in w1\<lparr>wire := wire w1 @ [msg @ [CHR 0x0A]]\<rparr>)
      else logging WARNING ''No live connection'' w)"

text \<open>
  \<^verbatim>\<open>Server.disconnect\<close>. Closing a file object or a socket that is already closed does
  nothing in Python, so no branch raises. The accepted socket \<^verbatim>\<open>conn\<close> itself is not
  closed by any statement.
\<close>

definition disconnect :: "bool \<Rightarrow> world \<Rightarrow> world" where
  "disconnect sd w =
     (let w1 = (if sd then
                  logging INFO ''Send shutdown signal to robot'' ((send ''sd'' w)\<lparr>alive := False\<rparr>)
                else w);
          w2 = w1\<lparr>streamfile := (streamfile w1)\<lparr>closed := True\<rparr>\<rparr>;
          w3 = w2\<lparr>server_socket_closed := True\<rparr>
      in logging DEBUG ''Shut down server'' w3)"

text \<open>The state right after \<^verbatim>\<open>Server.connect\<close> returned \<^verbatim>\<open>Rpi(conn)\<close>.\<close>

definition connected :: "8 word list \<Rightarrow> world" where
  "connected bs =
     \<lparr>GPIO = GPIO_init, alive = True, wire = [], logged = [], widget = [],
      streamfile = \<lparr>closed = False, buf = bs\<rparr>, server_socket_closed = False\<rparr>"

subsection \<open>Setting channels: \<^verbatim>\<open>clear_f\<close>, \<^verbatim>\<open>slider_value\<close>, \<^verbatim>\<open>forwards\<close>, \<^verbatim>\<open>safe_value\<close>\<close>













subsection \<open>The telemetry reader \<^verbatim>\<open>Stream\<close>\<close>

text \<open>
  \<^verbatim>\<open>stream.read(n)\<close> on the buffered binary file: ValueError when the file is closed;
  otherwise the next \<open>n\<close> bytes, or all the bytes left when the stream ends before that.
\<close>

definition read :: "nat \<Rightarrow> stream_file \<Rightarrow> exn + 8 word list \<times> stream_file" where
  "read n f =
     (if closed f then Inl ValueError
      else Inr (take n (buf f), f\<lparr>buf := drop n (buf f)\<rparr>))"

text \<open>\<^verbatim>\<open>struct.calcsize('<Lffffff')\<close>: one unsigned 32-bit integer and six 32-bit floats.\<close>

definition calcsize :: nat where
  "calcsize = 4 + 6 * 4"

fun le_nat :: "8 word list \<Rightarrow> nat" where
  "le_nat [] = 0"
| "le_nat (b # bs) = unat b + 256 * le_nat bs"

text \<open>
  \<^verbatim>\<open>struct.unpack('<Lffffff', b)\<close>: \<^verbatim>\<open>struct.error\<close> unless \<open>b\<close> has exactly
  \<open>calcsize\<close> bytes. The six floats are kept as their 32-bit patterns; the reader passes them
  on without computing with them.
\<close>

definition unpack :: "8 word list \<Rightarrow> exn + nat \<times> 32 word list" where
  "unpack b =
     (if length b \<noteq> calcsize then Inl StructError
      else Inr (le_nat (take 4 b),
                map (\<lambda>k. word_of_nat (le_nat (take 4 (drop (4 * k) b)))) [1, 2, 3, 4, 5, 6]))"

record Stream =
  stream :: stream_file
  i :: nat

definition Stream_init :: "stream_file \<Rightarrow> Stream" where
  "Stream_init f = \<lparr>stream = f, i = 0\<rparr>"

text \<open>
  An item is \<^verbatim>\<open>(self.i, im, agdata)\<close>. The image \<^verbatim>\<open>im\<close> is a \<^verbatim>\<open>QImage\<close> loaded from the
  payload bytes that were read; it is represented by those bytes.
\<close>

type_synonym frame = "nat \<times> 8 word list \<times> 32 word list"

text \<open>
  \<^verbatim>\<open>Stream.__next__\<close>. The \<^verbatim>\<open>try\<close> block holds the header read and the unpacking, and
  turns \<^verbatim>\<open>struct.error\<close> and ValueError into StopIteration; the payload read comes after
  it, outside any handler.
\<close>

definition handler :: "exn \<Rightarrow> exn" where
  "handler e = (if e = StructError \<or> e = ValueError then StopIteration else e)"

definition Stream_next :: "Stream \<Rightarrow> (exn + frame) \<times> Stream" where
  "Stream_next S =
     (let S1 = S\<lparr>i := i S + 1\<rparr> in
      case read calcsize (stream S1) of
        Inl e \<Rightarrow> (Inl (handler e), S1)
      | Inr (header, f1) \<Rightarrow>
          (case unpack header of
             Inl e \<Rightarrow> (Inl (handler e), S1\<lparr>stream := f1\<rparr>)
           | Inr (image_len, agdata) \<Rightarrow>
               (case read image_len f1 of
                  Inl e \<Rightarrow> (Inl e, S1\<lparr>stream := f1\<rparr>)
                | Inr (data, f2) \<Rightarrow> (Inr (i S1, data, agdata), S1\<lparr>stream := f2\<rparr>))))"

text \<open>
  What a \<^verbatim>\<open>for\<close> loop over the iterator receives (as in \<^verbatim>\<open>VideoStream.startVideo\<close>):
  the items in order, and how the loop ends: \<open>None\<close> when StopIteration ended it, the
  exception otherwise.
\<close>

function frames :: "Stream \<Rightarrow> frame list \<times> exn option" where
  "frames S =
     (case Stream_next S of
        (Inl e, S') \<Rightarrow> ([], if e = StopIteration then None else Some e)
      | (Inr item, S') \<Rightarrow> (case frames S' of (items, r) \<Rightarrow> (item # items, r)))"
  by pat_completeness auto

text \<open>An item is produced only after a full header of 28 bytes was consumed.\<close>

termination frames
proof (relation "measure (\<lambda>S. length (buf (stream S)))")
  show "wf (measure (\<lambda>S. length (buf (stream S))))" by simp
next
  fix S :: Stream and x S' item
  assume "(x, S') = Stream_next S" and "x = Inr item"
  then have "Stream_next S = (Inr item, S')" by simp
  then have "length (buf (stream S')) < length (buf (stream S))"
    by (auto simp: Stream_next_def Let_def read_def unpack_def calcsize_def
             split: sum.splits prod.splits if_splits)
  then show "(S', S) \<in> measure (\<lambda>S. length (buf (stream S)))" by simp
qed

declare frames.simps [simp del]

subsection \<open>The orientation estimator \<^verbatim>\<open>Model.process_ag2\<close>\<close>

text \<open>
  \<^verbatim>\<open>simulator.state\<close> is \<^verbatim>\<open>[1, 1, 0, 0]\<close> when the simulator is created. Afterwards it is
  the angle and axis of the rotation vector of
  \<^verbatim>\<open>quaternion.from_euler_angles(a, b, c)\<close>; that report is represented by the three
  arguments \<open>a\<close>, \<open>b\<close>, \<open>c\<close>. The floating-point type is a type parameter with a zero,
  a subtraction and a multiplication, of which no law is used.
\<close>

datatype 'a report = Preset | Rotation 'a 'a 'a

record 'a estimator =
  TIMESTAMP :: 'a
  state :: "'a report"
  paintGL_calls :: nat

definition estimator_init :: "('a::zero) estimator" where
  "estimator_init = \<lparr>TIMESTAMP = 0, state = Preset, paintGL_calls = 0\<rparr>"

text \<open>
  \<^verbatim>\<open>Model.process_ag2\<close>, which \<^verbatim>\<open>Simulator.recv_data\<close> calls on every sample. \<open>now1\<close>
  and \<open>now2\<close> are what the two calls of \<^verbatim>\<open>time()\<close> return. A sample that is not a
  six-element array fails to unpack with ValueError.
\<close>

definition process_ag2 ::
  "'a \<Rightarrow> 'a \<Rightarrow> 'a list \<Rightarrow> ('a::{zero,minus,times}) estimator \<Rightarrow> exn + 'a estimator" where
  "process_ag2 now1 now2 ag m =
     (let dt = now1 - TIMESTAMP m in
      case ag of
        [ax, ay, az, gx, gy, gz] \<Rightarrow>
          Inr (m\<lparr>state := Rotation (gx * dt) (gy * dt) (gz * dt),
                 paintGL_calls := paintGL_calls m + 1,
                 TIMESTAMP := now2\<rparr>)
      | _ \<Rightarrow> Inl ValueError)"

section \<open>Properties\<close>

subsection \<open>The table under assignments of current values\<close>

lemma keys_set_val [simp]: "keys (set_val s v g) = keys g"
  by (induction g) (auto simp: keys_def set_val_def)

lemma config_set_val [simp]: "config (set_val s v g) = config g"
  by (induction g) (auto simp: config_def set_val_def)

lemma map_of_set_val:
  "map_of (set_val s v g) k = (if k = s then map_option (\<lambda>e. e\<lparr>val := v\<rparr>) (map_of g k) else map_of g k)"
  by (induction g) (auto simp: set_val_def)

lemma map_of_keys: "(map_of g k = None) = (k \<notin> set (keys g))"
  by (simp add: keys_def map_of_eq_None_iff)


lemma config_keys: "config g = config g' \<Longrightarrow> keys g = keys g'"
proof -
  assume "config g = config g'"
  then have "map fst (config g) = map fst (config g')" by simp
  then show ?thesis by (simp add: config_def keys_def case_prod_unfold comp_def)
qed


lemma bounds_check_set_val [simp]: "bounds_check (set_val s v g) k x = bounds_check g k x"
  by (auto simp: bounds_check_def map_of_set_val split: option.splits)



lemma map_of_config:
  "map_of g c = Some e \<Longrightarrow> (c, descr e, safe e, bounds e) \<in> set (config g)"
  by (force simp: config_def dest: map_of_SomeD)

lemma table_entry:
  assumes "config g = config GPIO_init" and "c \<in> set (keys g)"
  shows "\<exists>e. map_of g c = Some e \<and> (c, descr e, safe e, bounds e) \<in> set (config GPIO_init)"
proof -
  from assms(2) obtain e where "map_of g c = Some e"
    using map_of_keys [of g c] by (cases "map_of g c") auto
  with map_of_config [of g c e] assms(1) show ?thesis by simp
qed

lemma config_GPIO_init:
  "config GPIO_init =
    [(''SN1V'', ''Servo|Neck1|Vertical'', 10, -40, 60),
     (''SN1H'', ''Servo|Neck1|Horizontal'', 0, -65, 65),
     (''SN2V'', ''Servo|Neck2|Vertical'', 10, -40, 60),
     (''SN2H'', ''Servo|Neck2|Horizontal'', 0, -65, 65),
     (''MS1F'', ''Motor|Segment1|Forwards'', 0, -80, 95),
     (''MS1S'', ''Motor|Segment1|Sideways'', 0, -90, 90),
     (''SJ1V'', ''Servo|Joint1|Vertical'', 0, -80, 80),
     (''SJ1H'', ''Servo|Joint1|Horizontal'', 0, -80, 80),
     (''MS2F'', ''Motor|Segment2|Forwards'', 0, -80, 95),
     (''MS2S'', ''Motor|Segment2|Sideways'', 0, -90, 90),
     (''SJ2V'', ''Servo|Joint2|Vertical'', 0, -80, 80),
     (''SJ2H'', ''Servo|Joint2|Horizontal'', 0, -80, 80),
     (''MS3F'', ''Motor|Segment3|Forwards'', 0, -80, 95),
     (''MS3S'', ''Motor|Segment3|Sideways'', 0, -90, 90)]"
  by (simp add: config_def GPIO_init_def)

lemma keys_GPIO_init:
  "keys GPIO_init =
    [''SN1V'', ''SN1H'', ''SN2V'', ''SN2H'', ''MS1F'', ''MS1S'', ''SJ1V'', ''SJ1H'',
     ''MS2F'', ''MS2S'', ''SJ2V'', ''SJ2H'', ''MS3F'', ''MS3S'']"
  by (simp add: keys_def GPIO_init_def)

lemma table_bounds_ordered:
  "(c, d, s, lo, hi) \<in> set (config GPIO_init) \<Longrightarrow> lo \<le> hi"
  by (auto simp: config_GPIO_init)

lemma bounds_check_in_range:
  assumes "map_of g c = Some e" and "fst (bounds e) \<le> snd (bounds e)"
  shows "\<exists>r. bounds_check g c v = Inr r \<and> fst (bounds e) \<le> r \<and> r \<le> snd (bounds e)
           \<and> (fst (bounds e) \<le> v \<and> v \<le> snd (bounds e) \<longrightarrow> r = v)"
  using assms by (cases "bounds e") (auto simp: bounds_check_def)

subsection \<open>Clipping a value into the bounds of its channel\<close>

text \<open>
  Claim C2. In any table that has the configuration of \<^verbatim>\<open>Model.GPIO\<close> (14 entries; only the
  current values may differ): for every channel \<open>c\<close> and every integer \<open>v\<close>,
  \<open>bounds_check\<close> returns a value (it never raises), the value lies between the lower and
  the upper bound of \<open>c\<close>, and it is \<open>v\<close> itself when \<open>v\<close> already lies between them.
  For \<^verbatim>\<open>SN1H\<close>, with bounds \<open>(-65, 65)\<close>, the input 9999 gives 65 and -9999 gives -65.
\<close>

theorem bounds_check_clips:
  assumes "config g = config GPIO_init"
  shows "length g = 14 \<and>
    (\<forall>c \<in> set (keys g). \<forall>v. \<exists>e r.
        map_of g c = Some e \<and> bounds_check g c v = Inr r \<and>
        fst (bounds e) \<le> r \<and> r \<le> snd (bounds e) \<and>
        (fst (bounds e) \<le> v \<and> v \<le> snd (bounds e) \<longrightarrow> r = v)) \<and>
    map_option bounds (map_of g ''SN1H'') = Some (- 65, 65) \<and>
    bounds_check g ''SN1H'' 9999 = Inr 65 \<and>
    bounds_check g ''SN1H'' (- 9999) = Inr (- 65)"
proof (intro conjI ballI allI)
  have "length (config g) = 14" by (simp add: assms config_GPIO_init)
  then show "length g = 14" by (simp add: config_def)
next
  fix c v
  assume "c \<in> set (keys g)"
  from table_entry [OF assms this] obtain e
    where e: "map_of g c = Some e" "(c, descr e, safe e, bounds e) \<in> set (config GPIO_init)"
    by blast
  from e(2) have "fst (bounds e) \<le> snd (bounds e)"
    using table_bounds_ordered [of c "descr e" "safe e" "fst (bounds e)" "snd (bounds e)"] by simp
  from bounds_check_in_range [OF e(1) this, of v] e(1)
  show "\<exists>e r. map_of g c = Some e \<and> bounds_check g c v = Inr r \<and>
        fst (bounds e) \<le> r \<and> r \<le> snd (bounds e) \<and>
        (fst (bounds e) \<le> v \<and> v \<le> snd (bounds e) \<longrightarrow> r = v)"
    by blast
next
  have k: "''SN1H'' \<in> set (keys g)"
    by (simp add: config_keys [OF assms] keys_GPIO_init)
  from table_entry [OF assms k] obtain e
    where e: "map_of g ''SN1H'' = Some e"
      "(''SN1H'', descr e, safe e, bounds e) \<in> set (config GPIO_init)"
    by blast
  from e(2) have b: "bounds e = (- 65, 65)" by (simp add: config_GPIO_init)
  show "map_option bounds (map_of g ''SN1H'') = Some (- 65, 65)" by (simp add: e(1) b)
  show "bounds_check g ''SN1H'' 9999 = Inr 65" by (simp add: bounds_check_def e(1) b)
  show "bounds_check g ''SN1H'' (- 9999) = Inr (- 65)" by (simp add: bounds_check_def e(1) b)
qed

text \<open>The theorem at the initial table, channel \<^verbatim>\<open>MS1F\<close> with bounds \<open>(-80, 95)\<close>.\<close>

theorem bounds_check_clips_witness:
  "config GPIO_init = config GPIO_init \<and> ''MS1F'' \<in> set (keys GPIO_init) \<and>
   length GPIO_init = 14 \<and>
   (\<exists>e r. map_of GPIO_init ''MS1F'' = Some e \<and> bounds_check GPIO_init ''MS1F'' 100 = Inr r \<and>
      fst (bounds e) \<le> r \<and> r \<le> snd (bounds e) \<and>
      (fst (bounds e) \<le> 100 \<and> 100 \<le> snd (bounds e) \<longrightarrow> r = 100)) \<and>
   bounds_check GPIO_init ''MS1F'' 100 = Inr 95 \<and>
   bounds_check GPIO_init ''MS1F'' (- 100) = Inr (- 80) \<and>
   bounds_check GPIO_init ''MS1F'' 7 = Inr 7"
proof -
  have h: "config GPIO_init = config GPIO_init" by simp
  have k: "''MS1F'' \<in> set (keys GPIO_init)" by (simp add: keys_GPIO_init)
  have m: "map_of GPIO_init ''MS1F'' =
    Some \<lparr>descr = ''Motor|Segment1|Forwards'', val = 0, safe = 0, bounds = (-80, 95)\<rparr>"
    by (simp add: GPIO_init_def)
  have b: "bounds_check GPIO_init ''MS1F'' 100 = Inr 95"
    "bounds_check GPIO_init ''MS1F'' (- 100) = Inr (- 80)"
    "bounds_check GPIO_init ''MS1F'' 7 = Inr 7"
    by (simp_all add: bounds_check_def m)
  from bounds_check_clips [OF h] k have "length GPIO_init = 14 \<and>
    (\<exists>e r. map_of GPIO_init ''MS1F'' = Some e \<and> bounds_check GPIO_init ''MS1F'' 100 = Inr r \<and>
      fst (bounds e) \<le> r \<and> r \<le> snd (bounds e) \<and>
      (fst (bounds e) \<le> 100 \<and> 100 \<le> snd (bounds e) \<longrightarrow> r = 100))"
    by blast
  with h k b show ?thesis by blast
qed

subsection \<open>The telemetry reader\<close>

lemma calcsize_28: "calcsize = 28"
  by (simp add: calcsize_def)

lemma next_short:
  "length (buf (stream S)) < calcsize \<Longrightarrow> fst (Stream_next S) = Inl StopIteration"
  by (simp add: Stream_next_def Let_def read_def unpack_def calcsize_def handler_def)

lemma next_closed:
  "closed (stream S) \<Longrightarrow> fst (Stream_next S) = Inl StopIteration"
  by (simp add: Stream_next_def Let_def read_def handler_def)

lemma frames_stop:
  "fst (Stream_next S) = Inl StopIteration \<Longrightarrow> frames S = ([], None)"
  by (cases "Stream_next S") (simp add: frames.simps [of S])


text \<open>
  Claim C8. When fewer than 28 bytes remain before the end of the stream (or the file is
  closed), \<^verbatim>\<open>__next__\<close> raises StopIteration, the regular end of an iterator, and no other
  exception: a loop over the reader receives no further item and ends normally. This holds
  from any state of the reader, so also after frames were produced.
\<close>

theorem header_truncated_ends_sequence:
  assumes "length (buf (stream S)) < calcsize"
  shows "calcsize = 28 \<and> fst (Stream_next S) = Inl StopIteration \<and> frames S = ([], None)"
  using assms by (simp add: calcsize_28 next_short frames_stop)

text \<open>A stream that ends after 10 bytes of the first header.\<close>

theorem header_truncated_ends_sequence_witness:
  "length (buf (stream (Stream_init \<lparr>closed = False, buf = [5, 0, 0, 0, 1, 2, 3, 4, 5, 6]\<rparr>)))
     < calcsize \<and>
   frames (Stream_init \<lparr>closed = False, buf = [5, 0, 0, 0, 1, 2, 3, 4, 5, 6]\<rparr>) = ([], None)"
proof -
  have h: "length (buf (stream (Stream_init \<lparr>closed = False, buf = [5, 0, 0, 0, 1, 2, 3, 4, 5, 6]\<rparr>)))
     < calcsize"
    by (simp add: Stream_init_def calcsize_def)
  from header_truncated_ends_sequence [OF h] h show ?thesis by simp
qed




subsection \<open>Sending and disconnecting\<close>

lemma send_dead:
  "\<not> alive w \<Longrightarrow> send msg w = w\<lparr>logged := logged w @ [(WARNING, ''No live connection'')]\<rparr>"
  by (simp add: send_def logging_def)

lemma send_alive:
  "alive w \<Longrightarrow> send msg w =
     w\<lparr>logged := logged w @ [(DEBUG, ''Send: '' @ msg)], wire := wire w @ [msg @ [CHR 0x0A]]\<rparr>"
  by (simp add: send_def logging_def Let_def)

lemma send_fields [simp]:
  "GPIO (send msg w) = GPIO w"
  "alive (send msg w) = alive w"
  "widget (send msg w) = widget w"
  "streamfile (send msg w) = streamfile w"
  "server_socket_closed (send msg w) = server_socket_closed w"
  "wire (send msg w) = (if alive w then wire w @ [msg @ [CHR 0x0A]] else wire w)"
  by (simp_all add: send_def logging_def Let_def)

lemma fold_send_dead:
  "\<not> alive w \<Longrightarrow>
   fold send msgs w = w\<lparr>logged := logged w @ replicate (length msgs) (WARNING, ''No live connection'')\<rparr>"
proof (induction msgs arbitrary: w)
  case Nil
  then show ?case by simp
next
  case (Cons m msgs)
  then show ?case by (simp add: send_dead replicate_append_same)
qed

lemma disconnect_True_fields:
  "alive (disconnect True w) = False"
  "wire (disconnect True w) = (if alive w then wire w @ [''sd'' @ [CHR 0x0A]] else wire w)"
  "closed (streamfile (disconnect True w))"
  "server_socket_closed (disconnect True w)"
  "GPIO (disconnect True w) = GPIO w"
  by (simp_all add: disconnect_def logging_def Let_def)

lemma disconnect_False_fields:
  "alive (disconnect False w) = alive w"
  "wire (disconnect False w) = wire w"
  "closed (streamfile (disconnect False w))"
  "server_socket_closed (disconnect False w)"
  "GPIO (disconnect False w) = GPIO w"
  by (simp_all add: disconnect_def logging_def Let_def)

text \<open>
  Claim C7. From a live connection, after \<^verbatim>\<open>disconnect(True)\<close>: \<open>alive\<close> is false, the
  line \<^verbatim>\<open>sd\<close> was handed to the connection once, the stream file and the listening
  socket are closed; every later \<^verbatim>\<open>send\<close> only appends the warning to the log and changes
  nothing else (the operations return a world, there is no branch that raises); and after
  any number of such sends a second \<^verbatim>\<open>disconnect(True)\<close> leaves what was sent unchanged,
  so that the shutdown line was sent exactly once.
\<close>

theorem disconnect_shutdown_once:
  assumes "alive w"
  shows "\<not> alive (disconnect True w) \<and>
    wire (disconnect True w) = wire w @ [''sd'' @ [CHR 0x0A]] \<and>
    closed (streamfile (disconnect True w)) \<and>
    server_socket_closed (disconnect True w) \<and>
    (\<forall>msg. send msg (disconnect True w) =
       (disconnect True w)\<lparr>logged := logged (disconnect True w) @ [(WARNING, ''No live connection'')]\<rparr>) \<and>
    (\<forall>msgs. fold send msgs (disconnect True w) =
       (disconnect True w)\<lparr>logged := logged (disconnect True w) @
          replicate (length msgs) (WARNING, ''No live connection'')\<rparr>) \<and>
    (\<forall>msgs. \<not> alive (disconnect True (fold send msgs (disconnect True w))) \<and>
       wire (disconnect True (fold send msgs (disconnect True w))) = wire w @ [''sd'' @ [CHR 0x0A]] \<and>
       count_list (wire (disconnect True (fold send msgs (disconnect True w)))) (''sd'' @ [CHR 0x0A])
         = count_list (wire w) (''sd'' @ [CHR 0x0A]) + 1)"
proof -
  let ?w1 = "disconnect True w"
  have d: "\<not> alive ?w1" by (simp add: disconnect_True_fields)
  have w1: "wire ?w1 = wire w @ [''sd'' @ [CHR 0x0A]]"
    using assms by (simp add: disconnect_True_fields)
  have rest: "\<not> alive (disconnect True (fold send msgs ?w1)) \<and>
       wire (disconnect True (fold send msgs ?w1)) = wire w @ [''sd'' @ [CHR 0x0A]] \<and>
       count_list (wire (disconnect True (fold send msgs ?w1))) (''sd'' @ [CHR 0x0A])
         = count_list (wire w) (''sd'' @ [CHR 0x0A]) + 1" for msgs
  proof -
    have f: "\<not> alive (fold send msgs ?w1)" "wire (fold send msgs ?w1) = wire ?w1"
      using d by (simp_all add: fold_send_dead [OF d])
    with w1 have "wire (disconnect True (fold send msgs ?w1)) = wire w @ [''sd'' @ [CHR 0x0A]]"
      by (simp add: disconnect_True_fields w1)
    then show ?thesis by (simp add: disconnect_True_fields)
  qed
  show ?thesis
    using d w1 rest send_dead [OF d] fold_send_dead [OF d]
    by (simp add: disconnect_True_fields)
qed

text \<open>The theorem at the state right after the connection was accepted.\<close>

theorem disconnect_shutdown_once_witness:
  "alive (connected []) \<and>
   wire (disconnect True (connected [])) = [''sd'' @ [CHR 0x0A]] \<and>
   wire (disconnect True (fold send [''MS1F:5'', ''MS1S:0''] (disconnect True (connected []))))
     = [''sd'' @ [CHR 0x0A]]"
proof -
  have a: "alive (connected [])" by (simp add: connected_def)
  have e: "wire (connected []) = []" by (simp add: connected_def)
  note t = disconnect_shutdown_once [OF a]
  from t have 1: "wire (disconnect True (connected [])) = wire (connected []) @ [''sd'' @ [CHR 0x0A]]"
    by blast
  from t have 2:
    "wire (disconnect True (fold send [''MS1F:5'', ''MS1S:0''] (disconnect True (connected []))))
       = wire (connected []) @ [''sd'' @ [CHR 0x0A]]"
    by blast
  from a 1 2 e show ?thesis by simp
qed

text \<open>
  Claim C10. From a live connection, after \<^verbatim>\<open>disconnect(False)\<close>: \<open>alive\<close> is still
  true although the stream file and the listening socket are closed, nothing was sent, and
  a later \<^verbatim>\<open>send\<close> takes the transmitting branch: it logs the message at debug level and
  hands the line to the connection, and it is not the logged no-op.
\<close>

theorem disconnect_without_shutdown_stays_alive:
  assumes "alive w"
  shows "alive (disconnect False w) \<and>
    closed (streamfile (disconnect False w)) \<and>
    server_socket_closed (disconnect False w) \<and>
    wire (disconnect False w) = wire w \<and>
    (\<forall>msg. send msg (disconnect False w) =
       (disconnect False w)\<lparr>logged := logged (disconnect False w) @ [(DEBUG, ''Send: '' @ msg)],
                             wire := wire w @ [msg @ [CHR 0x0A]]\<rparr> \<and>
       send msg (disconnect False w) \<noteq>
       (disconnect False w)\<lparr>logged := logged (disconnect False w) @ [(WARNING, ''No live connection'')]\<rparr>)"
proof -
  let ?w1 = "disconnect False w"
  have a: "alive ?w1" using assms by (simp add: disconnect_False_fields)
  have w1: "wire ?w1 = wire w" by (simp add: disconnect_False_fields)
  have "send msg ?w1 \<noteq> ?w1\<lparr>logged := logged ?w1 @ [(WARNING, ''No live connection'')]\<rparr>" for msg
  proof
    assume "send msg ?w1 = ?w1\<lparr>logged := logged ?w1 @ [(WARNING, ''No live connection'')]\<rparr>"
    then have "wire (send msg ?w1) = wire ?w1" by simp
    with a show False by simp
  qed
  with a w1 send_alive [OF a] show ?thesis by (simp add: disconnect_False_fields)
qed

text \<open>The theorem at the state right after the connection was accepted.\<close>

theorem disconnect_without_shutdown_stays_alive_witness:
  "alive (connected []) \<and> alive (disconnect False (connected [])) \<and>
   wire (send ''MS1F:5'' (disconnect False (connected []))) = [''MS1F:5'' @ [CHR 0x0A]]"
proof -
  have a: "alive (connected [])" by (simp add: connected_def)
  have e: "wire (connected []) = []" by (simp add: connected_def)
  from disconnect_without_shutdown_stays_alive [OF a] a e show ?thesis by simp
qed

subsection \<open>The orientation estimator\<close>

text \<open>
  Claim C4 fails on \<^verbatim>\<open>process_ag2\<close>. From the initial state (\<^verbatim>\<open>TIMESTAMP = 0.0\<close>), the
  first sample is processed as every other: \<open>dt\<close> is the clock reading minus 0, the report
  for the Euler angles \<open>(gx * dt, gy * dt, gz * dt)\<close> replaces the preset state, the
  simulator repaints, and the second clock reading is stored. The instance has the clock at
  1500000000 and the sample \<open>(0, 0, 0, 1, 0, 0)\<close>, on which floating-point and integer
  arithmetic agree.
\<close>

theorem process_ag2_first_sample_emits:
  "process_ag2 now1 now2 [ax, ay, az, gx, gy, gz] estimator_init =
     Inr \<lparr>TIMESTAMP = now2,
          state = Rotation (gx * (now1 - 0)) (gy * (now1 - 0)) (gz * (now1 - 0)),
          paintGL_calls = 1\<rparr> \<and>
   process_ag2 (1500000000 :: int) 1500000000 [0, 0, 0, 1, 0, 0] estimator_init =
     Inr \<lparr>TIMESTAMP = 1500000000, state = Rotation 1500000000 0 0, paintGL_calls = 1\<rparr>"
  by (simp add: process_ag2_def estimator_init_def Let_def)

subsection \<open>Setting one channel: the Forward/Sideways exclusion\<close>

lemma setValue_fields [simp]:
  "GPIO (setValue s v w) = GPIO w"
  "alive (setValue s v w) = alive w"
  "wire (setValue s v w) = wire w"
  "widget (setValue s v w) = widget w @ [(s, v)]"
  by (simp_all add: setValue_def)






















subsection \<open>Setting the three Forwards channels at once\<close>






subsection \<open>Resetting the servos to their safe values\<close>












end
